theory Spec2Isabelle
  imports Main "HOL-Library.Sublist"
begin

section \<open>Values and text\<close>

text \<open>
  Every value the scraper handles comes out of \<^verbatim>\<open>response.json()\<close>, so a value is a
  JSON value as Python holds it: \<^verbatim>\<open>None\<close>, a bool, an int, a float, a str, a list or
  a dict. The program never computes with floats, it only prints them, so a float is
  carried as the text Python prints for it. A dict is its list of items in insertion
  order; lookup is \<open>map_of\<close>.

  Text is a \<open>string\<close>. The functions \<open>lower\<close> and \<open>repr_str\<close> below are Python's
  \<^verbatim>\<open>str.lower\<close> and \<^verbatim>\<open>repr\<close> on ASCII text; for other characters Python consults
  the Unicode tables for case and printability, and the model leaves those characters
  as they are.
\<close>

datatype json =
    JNull
  | JBool bool
  | JInt int
  | JFloat string
  | JStr string
  | JList "json list"
  | JDict "(string \<times> json) list"

text \<open>\<^verbatim>\<open>sep.join(xs)\<close>\<close>

fun py_join :: "string \<Rightarrow> string list \<Rightarrow> string" where
  "py_join sep [] = []"
| "py_join sep [x] = x"
| "py_join sep (x # y # ys) = x @ sep @ py_join sep (y # ys)"

definition digit_char :: "nat \<Rightarrow> char" where
  "digit_char d = ''0123456789abcdef'' ! d"

fun str_nat :: "nat \<Rightarrow> string" where
  "str_nat n = (if n < 10 then [digit_char n] else str_nat (n div 10) @ [digit_char (n mod 10)])"

definition str_int :: "int \<Rightarrow> string" where
  "str_int i = (if i < 0 then CHR ''-'' # str_nat (nat (- i)) else str_nat (nat i))"

text \<open>
  \<^verbatim>\<open>repr\<close> of a str: double quotes when the text has a single quote and no double
  quote, single quotes otherwise; the quote and the backslash are escaped, and so are
  the control characters.
\<close>

definition repr_char :: "char \<Rightarrow> char \<Rightarrow> string" where
  "repr_char q c =
    (if c = q \<or> c = CHR 0x5C then [CHR 0x5C, c]
     else if c = CHR 0x09 then [CHR 0x5C, CHR ''t'']
     else if c = CHR 0x0A then [CHR 0x5C, CHR ''n'']
     else if c = CHR 0x0D then [CHR 0x5C, CHR ''r'']
     else if of_char c < (32::nat) \<or> c = CHR 0x7F
       then [CHR 0x5C, CHR ''x'', digit_char (of_char c div 16), digit_char (of_char c mod 16)]
     else [c])"

definition repr_str :: "string \<Rightarrow> string" where
  "repr_str s =
    (let q = (if CHR 0x27 \<in> set s \<and> CHR 0x22 \<notin> set s then CHR 0x22 else CHR 0x27)
     in [q] @ concat (map (repr_char q) s) @ [q])"

fun py_repr :: "json \<Rightarrow> string" where
  "py_repr JNull = ''None''"
| "py_repr (JBool b) = (if b then ''True'' else ''False'')"
| "py_repr (JInt i) = str_int i"
| "py_repr (JFloat r) = r"
| "py_repr (JStr s) = repr_str s"
| "py_repr (JList xs) = ''['' @ py_join '', '' (map py_repr xs) @ '']''"
| "py_repr (JDict kvs) =
     ''{'' @ py_join '', '' (map (\<lambda>(k, v). repr_str k @ '': '' @ py_repr v) kvs) @ ''}''"

text \<open>\<^verbatim>\<open>str(v)\<close>: a str is itself, anything else prints as its \<^verbatim>\<open>repr\<close>.\<close>

definition py_str :: "json \<Rightarrow> string" where
  "py_str v = (case v of JStr s \<Rightarrow> s | _ \<Rightarrow> py_repr v)"

text \<open>\<^verbatim>\<open>s.lower()\<close>\<close>

definition lower_char :: "char \<Rightarrow> char" where
  "lower_char c =
    (let n = (of_char c :: nat) in if 65 \<le> n \<and> n \<le> 90 then char_of (n + 32) else c)"

definition lower :: "string \<Rightarrow> string" where
  "lower s = map lower_char s"

text \<open>\<^verbatim>\<open>sub in s\<close> on two strs: \<open>sub\<close> starts at some position of \<open>s\<close>.\<close>

fun startswith :: "string \<Rightarrow> string \<Rightarrow> bool" where
  "startswith s [] = True"
| "startswith [] (p # ps) = False"
| "startswith (c # cs) (p # ps) = (c = p \<and> startswith cs ps)"

fun py_in :: "string \<Rightarrow> string \<Rightarrow> bool" where
  "py_in sub [] = (sub = [])"
| "py_in sub (c # cs) = (startswith (c # cs) sub \<or> py_in sub cs)"

text \<open>\<^verbatim>\<open>all(...)\<close> over the values a generator yields.\<close>

fun py_all :: "bool list \<Rightarrow> bool" where
  "py_all [] = True"
| "py_all (b # bs) = (if b then py_all bs else False)"

section \<open>Exceptions and dynamic operations\<close>

record response =
  status_code :: int
  reason :: string
  url :: string
  response_text :: string
  json_body :: "string + json"

text \<open>
  A response of the \<^verbatim>\<open>requests\<close> library, as far as the scraper reads it. \<open>json_body\<close>
  is what \<^verbatim>\<open>response.json()\<close> gives: the parsed body, or the decoder's message when
  the body is not JSON. \<open>RequestException\<close> stands for
  \<^verbatim>\<open>requests.exceptions.RequestException\<close> and all its subclasses: the first argument
  names the subclass, the second is the message \<^verbatim>\<open>str(e)\<close>, the third the attribute
  \<^verbatim>\<open>e.response\<close>.
\<close>

datatype exn =
    RequestException string string "response option"
  | AttributeError
  | TypeError
  | KeyError
  | OverflowError
  | OSError string

text \<open>\<^verbatim>\<open>d.get(k, dflt)\<close> on a dict.\<close>

definition dict_get :: "(string \<times> json) list \<Rightarrow> string \<Rightarrow> json \<Rightarrow> json" where
  "dict_get d k dflt = (case map_of d k of None \<Rightarrow> dflt | Some v \<Rightarrow> v)"

text \<open>
  \<^verbatim>\<open>for x in v\<close>: a list yields its elements, a dict its keys, a str its characters;
  nothing else is iterable.
\<close>

definition py_iter :: "json \<Rightarrow> exn + json list" where
  "py_iter v =
    (case v of
       JList xs \<Rightarrow> Inr xs
     | JDict kvs \<Rightarrow> Inr (map (\<lambda>kv. JStr (fst kv)) kvs)
     | JStr s \<Rightarrow> Inr (map (\<lambda>c. JStr [c]) s)
     | _ \<Rightarrow> Inl TypeError)"

text \<open>\<^verbatim>\<open>len(v)\<close>\<close>

definition py_len :: "json \<Rightarrow> exn + nat" where
  "py_len v =
    (case v of
       JList xs \<Rightarrow> Inr (length xs)
     | JDict kvs \<Rightarrow> Inr (length kvs)
     | JStr s \<Rightarrow> Inr (length s)
     | _ \<Rightarrow> Inl TypeError)"

section \<open>filter\_opportunities\<close>

text \<open>
  Lines 128-133: the text searched for one opportunity. Only a dict has \<^verbatim>\<open>.get\<close>; on
  any other value the attribute lookup raises.
\<close>

definition searchable_text :: "json \<Rightarrow> exn + string" where
  "searchable_text opp =
    (case opp of
       JDict d \<Rightarrow>
         Inr (lower (py_join '' ''
           [py_str (dict_get d ''title'' (JStr '''')),
            py_str (dict_get d ''description'' (JStr '''')),
            py_str (dict_get d ''type'' (JStr '''')),
            py_str (dict_get d ''classificationCode'' (JStr ''''))]))
     | _ \<Rightarrow> Inl AttributeError)"

text \<open>Lines 136-137: every keyword, lowercased, occurs in the text.\<close>

definition all_keywords_present :: "string \<Rightarrow> string list \<Rightarrow> bool" where
  "all_keywords_present txt must_include_keywords =
     py_all (map (\<lambda>keyword. py_in (lower keyword) txt) must_include_keywords)"

text \<open>Lines 126-138: the loop, with the list \<^verbatim>\<open>filtered\<close> as accumulator.\<close>

fun filter_loop :: "json list \<Rightarrow> string list \<Rightarrow> json list \<Rightarrow> exn + json list" where
  "filter_loop [] must_include_keywords filtered = Inr filtered"
| "filter_loop (opp # rest) must_include_keywords filtered =
    (case searchable_text opp of
       Inl e \<Rightarrow> Inl e
     | Inr txt \<Rightarrow>
         if all_keywords_present txt must_include_keywords
         then filter_loop rest must_include_keywords (filtered @ [opp])
         else filter_loop rest must_include_keywords filtered)"

definition filter_opportunities :: "json \<Rightarrow> string list \<Rightarrow> exn + json" where
  "filter_opportunities opportunities must_include_keywords =
    (case py_iter opportunities of
       Inl e \<Rightarrow> Inl e
     | Inr opps \<Rightarrow>
         (case filter_loop opps must_include_keywords [] of
            Inl e \<Rightarrow> Inl e
          | Inr filtered \<Rightarrow> Inr (JList filtered)))"

text \<open>An opportunity is a JSON object.\<close>

fun is_opportunity :: "json \<Rightarrow> bool" where
  "is_opportunity (JDict d) = True"
| "is_opportunity _ = False"

text \<open>
  The declarative reading of the test of lines 136-137, used to state what the loop
  keeps: the opportunity has a search text, and every keyword, lowercased, is a
  contiguous part of it.
\<close>

definition spec_retained :: "string list \<Rightarrow> json \<Rightarrow> bool" where
  "spec_retained M opp \<longleftrightarrow>
     (\<exists>s. searchable_text opp = Inr s \<and> (\<forall>k\<in>set M. sublist (lower k) s))"


section \<open>The world outside\<close>

text \<open>
  The console and the files written are state; \<^verbatim>\<open>print\<close> appends one entry to the
  console. \<open>files\<close> lists the completed writes, each with the value that was
  serialised; the text \<^verbatim>\<open>json.dump\<close> makes of it is the library's business.
\<close>

record world =
  console :: "string list"
  files :: "(string \<times> json) list"

definition py_print :: "world \<Rightarrow> string \<Rightarrow> world" where
  "py_print w line = w\<lparr>console := console w @ [line]\<rparr>"

text \<open>
  What the libraries answer is a parameter:
  \<^item> \<open>date_window days_back\<close> is lines 38-44, the pair \<^verbatim>\<open>(postedFrom, postedTo)\<close> that
    \<^verbatim>\<open>datetime.now()\<close>, \<^verbatim>\<open>timedelta\<close> and \<^verbatim>\<open>strftime\<close> produce, or \<open>None\<close> when the
    date arithmetic overflows;
  \<^item> \<open>requests_get url headers params\<close> is the outcome of \<^verbatim>\<open>requests.get\<close>;
  \<^item> \<open>write_json name v\<close> is the outcome of lines 104-105 (\<^verbatim>\<open>open\<close> for writing, then
    \<^verbatim>\<open>json.dump\<close>): \<open>None\<close> when the file is written, the exception otherwise.
\<close>

record env =
  date_window :: "int \<Rightarrow> (string \<times> string) option"
  requests_get :: "string \<Rightarrow> (string \<times> string) list \<Rightarrow> (string \<times> json) list \<Rightarrow> exn + response"
  write_json :: "string \<Rightarrow> json \<Rightarrow> exn option"

section \<open>search\_opportunities\<close>

record scraper =
  api_key :: string
  base_url :: string
  headers :: "(string \<times> string) list"

text \<open>Lines 9-18.\<close>

definition init_scraper :: "string \<Rightarrow> scraper" where
  "init_scraper key =
     \<lparr>api_key = key,
      base_url = ''https://api.sam.gov/opportunities/v2/search'',
      headers = [(''Content-Type'', ''application/json'')]\<rparr>"

text \<open>Line 47.\<close>

definition keyword_query :: "string list \<Rightarrow> string" where
  "keyword_query keywords = py_join '' OR '' (map (\<lambda>k. [CHR 0x22] @ k @ [CHR 0x22]) keywords)"

text \<open>Lines 49-55.\<close>

definition build_params ::
  "scraper \<Rightarrow> int \<Rightarrow> string \<Rightarrow> string \<Rightarrow> string \<Rightarrow> (string \<times> json) list" where
  "build_params self limit postedFrom postedTo kq =
     [(''api_key'', JStr (api_key self)),
      (''limit'', JInt limit),
      (''postedFrom'', JStr postedFrom),
      (''postedTo'', JStr postedTo),
      (''keywords'', JStr kq)]"

text \<open>\<^verbatim>\<open>response.raise_for_status()\<close>: an \<^verbatim>\<open>HTTPError\<close> for a status from 400 to 599.\<close>

definition raise_for_status :: "response \<Rightarrow> exn + unit" where
  "raise_for_status r =
    (if 400 \<le> status_code r \<and> status_code r < 500 then
       Inl (RequestException ''HTTPError''
         (str_int (status_code r) @ '' Client Error: '' @ reason r @ '' for url: '' @ url r)
         (Some r))
     else if 500 \<le> status_code r \<and> status_code r < 600 then
       Inl (RequestException ''HTTPError''
         (str_int (status_code r) @ '' Server Error: '' @ reason r @ '' for url: '' @ url r)
         (Some r))
     else Inr ())"

text \<open>
  \<^verbatim>\<open>response.json()\<close>: on a body that is not JSON the library (from its version 2.27
  on) raises its own \<^verbatim>\<open>JSONDecodeError\<close>, a \<^verbatim>\<open>RequestException\<close> that carries no
  response.
\<close>

definition response_json :: "response \<Rightarrow> exn + json" where
  "response_json r =
    (case json_body r of
       Inl msg \<Rightarrow> Inl (RequestException ''JSONDecodeError'' msg None)
     | Inr data \<Rightarrow> Inr data)"

text \<open>
  \<^verbatim>\<open>key in data\<close> for a str \<open>key\<close>: among the keys of a dict, among the elements of a
  list, inside a str; a \<^verbatim>\<open>TypeError\<close> on anything else.
\<close>

definition py_contains :: "string \<Rightarrow> json \<Rightarrow> exn + bool" where
  "py_contains key data =
    (case data of
       JDict d \<Rightarrow> Inr (key \<in> set (map fst d))
     | JList xs \<Rightarrow> Inr (JStr key \<in> set xs)
     | JStr s \<Rightarrow> Inr (py_in key s)
     | _ \<Rightarrow> Inl TypeError)"

text \<open>\<^verbatim>\<open>data[key]\<close> for a str \<open>key\<close>: only a dict can be indexed by a str.\<close>

definition py_getitem :: "json \<Rightarrow> string \<Rightarrow> exn + json" where
  "py_getitem data key =
    (case data of
       JDict d \<Rightarrow> (case map_of d key of None \<Rightarrow> Inl KeyError | Some v \<Rightarrow> Inr v)
     | _ \<Rightarrow> Inl TypeError)"

text \<open>Lines 58-77, the body of the \<^verbatim>\<open>try\<close>.\<close>

definition try_body ::
  "env \<Rightarrow> scraper \<Rightarrow> world \<Rightarrow> (string \<times> json) list \<Rightarrow> world \<times> (exn + json)" where
  "try_body ev self w params =
    (let w1 = py_print w (''Making request to '' @ base_url self);
         w2 = py_print w1 (''Parameters: '' @ py_str (JDict params))
     in case requests_get ev (base_url self) (headers self) params of
          Inl e \<Rightarrow> (w2, Inl e)
        | Inr response \<Rightarrow>
           (let w3 = (if status_code response \<noteq> 200
                      then py_print w2 (''Error response: '' @ response_text response)
                      else w2)
            in case raise_for_status response of
                 Inl e \<Rightarrow> (w3, Inl e)
               | Inr _ \<Rightarrow>
                   (case response_json response of
                      Inl e \<Rightarrow> (w3, Inl e)
                    | Inr data \<Rightarrow>
                        (case py_contains ''opportunitiesData'' data of
                           Inl e \<Rightarrow> (w3, Inl e)
                         | Inr present \<Rightarrow>
                             if \<not> present
                             then (py_print w3 (''Unexpected response format: '' @ py_str data),
                                   Inr (JList []))
                             else (w3, py_getitem data ''opportunitiesData'')))))"

text \<open>
  Lines 79-83, the handler: it takes a \<^verbatim>\<open>RequestException\<close> and nothing else; any
  other exception goes on to the caller.
\<close>

definition except_request_exception :: "world \<Rightarrow> exn \<Rightarrow> world \<times> (exn + json)" where
  "except_request_exception w e =
    (case e of
       RequestException cls msg resp \<Rightarrow>
         let w1 = py_print w (''Error fetching opportunities: '' @ msg);
             w2 = (case resp of
                     None \<Rightarrow> w1
                   | Some r \<Rightarrow> py_print w1 (''Response text: '' @ response_text r))
         in (w2, Inr (JList []))
     | _ \<Rightarrow> (w, Inl e))"

definition search_opportunities ::
  "env \<Rightarrow> scraper \<Rightarrow> world \<Rightarrow> string list \<Rightarrow> int \<Rightarrow> int \<Rightarrow> world \<times> (exn + json)" where
  "search_opportunities ev self w keywords days_back limit =
    (case date_window ev days_back of
       None \<Rightarrow> (w, Inl OverflowError)
     | Some (postedFrom, postedTo) \<Rightarrow>
         (case try_body ev self w
                 (build_params self limit postedFrom postedTo (keyword_query keywords)) of
            (w', Inl e) \<Rightarrow> except_request_exception w' e
          | (w', Inr v) \<Rightarrow> (w', Inr v)))"



text \<open>
  The keyword string as the specification words it: nothing for no keyword, else the
  first keyword in double quotes, and every further one added after \<^verbatim>\<open> OR \<close>.
\<close>

definition spec_keyword_query :: "string list \<Rightarrow> string" where
  "spec_keyword_query K =
    (case K of
       [] \<Rightarrow> []
     | k # ks \<Rightarrow>
         foldl (\<lambda>acc k'. acc @ '' OR '' @ [CHR 0x22] @ k' @ [CHR 0x22])
           ([CHR 0x22] @ k @ [CHR 0x22]) ks)"

section \<open>save\_opportunities\<close>

text \<open>
  Lines 98-107. \<open>timestamp\<close> is \<^verbatim>\<open>datetime.now().strftime("%Y%m%d_%H%M%S")\<close> at the
  call. There is no handler: a failed write leaves the function at once.
\<close>

definition save_opportunities ::
  "env \<Rightarrow> world \<Rightarrow> string \<Rightarrow> json \<Rightarrow> string \<Rightarrow> world \<times> (exn + unit)" where
  "save_opportunities ev w timestamp opportunities filename =
    (let filename_with_timestamp = filename @ ''_'' @ timestamp @ ''.json''
     in case write_json ev filename_with_timestamp opportunities of
          Some e \<Rightarrow> (w, Inl e)
        | None \<Rightarrow>
           (let w1 = w\<lparr>files := files w @ [(filename_with_timestamp, opportunities)]\<rparr>
            in case py_len opportunities of
                 Inl e \<Rightarrow> (w1, Inl e)
               | Inr n \<Rightarrow>
                   (py_print w1 (''Saved '' @ str_nat n @ '' opportunities to ''
                      @ filename_with_timestamp),
                    Inr ())))"

section \<open>print\_summary\<close>

text \<open>Lines 149-154.\<close>

fun summary_loop :: "world \<Rightarrow> json list \<Rightarrow> world \<times> (exn + unit)" where
  "summary_loop w [] = (w, Inr ())"
| "summary_loop w (opp # rest) =
    (let w1 = py_print w (CHR 0x0A # replicate 80 (CHR ''-''))
     in case opp of
          JDict d \<Rightarrow>
            summary_loop
              (py_print (py_print (py_print (py_print w1
                 (''Title: '' @ py_str (dict_get d ''title'' JNull)))
                 (''Notice ID: '' @ py_str (dict_get d ''noticeId'' JNull)))
                 (''Posted Date: '' @ py_str (dict_get d ''postedDate'' JNull)))
                 (''Response Due Date: '' @ py_str (dict_get d ''responseDueDate'' JNull)))
              rest
        | _ \<Rightarrow> (w1, Inl AttributeError))"

text \<open>Lines 146-154.\<close>

definition print_summary :: "world \<Rightarrow> json \<Rightarrow> string \<Rightarrow> world \<times> (exn + unit)" where
  "print_summary w opportunities title =
    (let w1 = py_print w (CHR 0x0A # title @ '' Summary:'')
     in case py_len opportunities of
          Inl e \<Rightarrow> (w1, Inl e)
        | Inr n \<Rightarrow>
           (let w2 = py_print w1 (''Total count: '' @ str_nat n)
            in case py_iter opportunities of
                 Inl e \<Rightarrow> (w2, Inl e)
               | Inr opps \<Rightarrow> summary_loop w2 opps))"

section \<open>main\<close>

text \<open>
  Lines 156-189. The key of line 158 is the parameter \<open>key\<close>; \<open>t1\<close> and \<open>t2\<close> are the
  timestamps of the two saves. No call is guarded: the first exception ends the run.
\<close>

definition main :: "env \<Rightarrow> string \<Rightarrow> string \<Rightarrow> string \<Rightarrow> world \<Rightarrow> world \<times> (exn + unit)" where
  "main ev key t1 t2 w =
    (let scraper = init_scraper key;
         search_keywords = [''software'', ''development'', ''cloud''];
         must_include = [''python'', ''aws''];
         w0 = py_print w ''Searching for opportunities...''
     in case search_opportunities ev scraper w0 search_keywords 30 100 of
          (w1, Inl e) \<Rightarrow> (w1, Inl e)
        | (w1, Inr opportunities) \<Rightarrow>
            (case save_opportunities ev w1 t1 opportunities ''all_opportunities'' of
               (w2, Inl e) \<Rightarrow> (w2, Inl e)
             | (w2, Inr _) \<Rightarrow>
                 (case filter_opportunities opportunities must_include of
                    Inl e \<Rightarrow> (w2, Inl e)
                  | Inr filtered_opportunities \<Rightarrow>
                      (case save_opportunities ev w2 t2 filtered_opportunities
                              ''filtered_opportunities'' of
                         (w3, Inl e) \<Rightarrow> (w3, Inl e)
                       | (w3, Inr _) \<Rightarrow>
                           (case print_summary w3 opportunities ''All Opportunities'' of
                              (w4, Inl e) \<Rightarrow> (w4, Inl e)
                            | (w4, Inr _) \<Rightarrow>
                                print_summary w4 filtered_opportunities
                                  ''Filtered Opportunities'')))))"

section \<open>Sample data\<close>

definition python_aws_opp :: json where
  "python_aws_opp =
     JDict [(''title'', JStr ''Python AWS Cloud Migration''), (''noticeId'', JStr ''N-1'')]"

definition java_opp :: json where
  "java_opp =
     JDict [(''title'', JStr ''Java Mainframe Support''), (''description'', JNull)]"

definition aws_opp :: json where
  "aws_opp = JDict [(''title'', JStr ''AWS Cloud Project'')]"

definition null_title_opp :: json where
  "null_title_opp = JDict [(''title'', JNull)]"

definition empty_title_opp :: json where
  "empty_title_opp = JDict [(''title'', JStr [])]"

definition sample_self :: scraper where
  "sample_self = init_scraper ''KEY''"

definition sample_world :: world where
  "sample_world = \<lparr>console = [], files = []\<rparr>"

definition sample_response :: "int \<Rightarrow> string + json \<Rightarrow> response" where
  "sample_response status body =
     \<lparr>status_code = status, reason = ''R'', url = ''U'', response_text = ''T'',
      json_body = body\<rparr>"

text \<open>An environment whose every request gives the same outcome, and whose disk is full or not.\<close>

definition sample_env :: "exn + response \<Rightarrow> exn option \<Rightarrow> env" where
  "sample_env outcome disk =
     \<lparr>date_window = (\<lambda>days_back. Some (''10/05/2026'', ''11/04/2026'')),
      requests_get = (\<lambda>u h p. outcome),
      write_json = (\<lambda>name v. disk)\<rparr>"

section \<open>The operations on text\<close>

lemma startswith_prefix: "startswith s p \<longleftrightarrow> prefix p s"
  by (induction s p rule: startswith.induct) auto

lemma py_in_sublist: "py_in sub s \<longleftrightarrow> sublist sub s"
  by (induction s) (auto simp: startswith_prefix sublist_Cons_right)

lemma py_all_iff: "py_all bs \<longleftrightarrow> (\<forall>b\<in>set bs. b)"
  by (induction bs) auto

lemma all_keywords_present_iff:
  "all_keywords_present s M \<longleftrightarrow> (\<forall>k\<in>set M. sublist (lower k) s)"
  by (simp add: all_keywords_present_def py_all_iff py_in_sublist)

lemma py_join_Cons: "py_join sep (x # xs) = x @ concat (map (\<lambda>y. sep @ y) xs)"
  by (induction xs arbitrary: x) simp_all

lemma foldl_append_each:
  "foldl (\<lambda>acc y. acc @ f y) a ys = a @ concat (map f ys)"
  by (induction ys arbitrary: a) simp_all

section \<open>The filter loop\<close>

lemma searchable_text_opportunity:
  "is_opportunity opp \<Longrightarrow> \<exists>s. searchable_text opp = Inr s"
  by (cases opp) (simp_all add: searchable_text_def)

lemma filter_loop_opportunities:
  "list_all is_opportunity opps \<Longrightarrow>
   filter_loop opps M filtered = Inr (filtered @ filter (spec_retained M) opps)"
proof (induction opps arbitrary: filtered)
  case Nil
  show ?case by simp
next
  case (Cons opp rest)
  from Cons.prems obtain s where s: "searchable_text opp = Inr s"
    using searchable_text_opportunity by auto
  from Cons.prems have rest: "list_all is_opportunity rest" by simp
  show ?case
    using s Cons.IH [OF rest]
    by (simp add: spec_retained_def all_keywords_present_iff)
qed

lemma filter_opportunities_list:
  "list_all is_opportunity opps \<Longrightarrow>
   filter_opportunities (JList opps) M = Inr (JList (filter (spec_retained M) opps))"
  by (simp add: filter_opportunities_def py_iter_def filter_loop_opportunities)

lemma list_all_filter: "list_all P xs \<Longrightarrow> list_all P (filter Q xs)"
  by (induction xs) simp_all

lemma spec_retained_Nil: "is_opportunity opp \<Longrightarrow> spec_retained [] opp"
  using searchable_text_opportunity by (simp add: spec_retained_def)

lemma spec_retained_append:
  "spec_retained (M1 @ M2) opp \<longleftrightarrow> spec_retained M1 opp \<and> spec_retained M2 opp"
  by (auto simp: spec_retained_def)

lemma count_list_filter:
  "count_list (filter P xs) x = (if P x then count_list xs x else 0)"
  by (induction xs) auto



lemma sample_opportunities:
  "is_opportunity python_aws_opp" "is_opportunity java_opp" "is_opportunity aws_opp"
  "is_opportunity null_title_opp" "is_opportunity empty_title_opp"
  by (simp_all add: python_aws_opp_def java_opp_def aws_opp_def null_title_opp_def
      empty_title_opp_def)



section \<open>What the filter keeps\<close>



text \<open>
  C2. On a list of opportunities the filter returns a subsequence of its input, in
  the input's order, and an entry that is kept is kept as often as it occurs; with
  no keyword the input comes back unchanged.
\<close>

theorem filter_is_ordered_subsequence:
  assumes opps: "list_all is_opportunity opps"
  shows "(\<exists>kept. filter_opportunities (JList opps) M = Inr (JList kept)
            \<and> subseq kept opps
            \<and> (\<forall>opp\<in>set kept. count_list kept opp = count_list opps opp))
       \<and> filter_opportunities (JList opps) [] = Inr (JList opps)"
proof -
  have "subseq (filter (spec_retained M) opps) opps"
    by simp
  moreover have "\<forall>opp\<in>set (filter (spec_retained M) opps).
      count_list (filter (spec_retained M) opps) opp = count_list opps opp"
    by (simp add: count_list_filter)
  moreover have "filter (spec_retained []) opps = opps"
    using opps by (simp add: list_all_iff spec_retained_Nil)
  ultimately show ?thesis
    using filter_opportunities_list [OF opps, of M] filter_opportunities_list [OF opps, of "[]"]
    by simp
qed

theorem filter_is_ordered_subsequence_witness:
  "filter_opportunities (JList [java_opp, python_aws_opp, java_opp]) []
     = Inr (JList [java_opp, python_aws_opp, java_opp])"
proof -
  have "list_all is_opportunity [java_opp, python_aws_opp, java_opp]"
    by (simp add: sample_opportunities)
  from filter_is_ordered_subsequence [OF this, of "[]"] show ?thesis
    by simp
qed

text \<open>
  C9. Filtering a second time with the same keywords changes nothing.
\<close>

theorem filter_idempotent:
  assumes opps: "list_all is_opportunity opps"
  shows "\<exists>kept. filter_opportunities (JList opps) M = Inr kept
            \<and> filter_opportunities kept M = Inr kept"
proof -
  have "list_all is_opportunity (filter (spec_retained M) opps)"
    using opps by (rule list_all_filter)
  then have "filter_opportunities (JList (filter (spec_retained M) opps)) M
      = Inr (JList (filter (spec_retained M) (filter (spec_retained M) opps)))"
    by (rule filter_opportunities_list)
  then show ?thesis
    using filter_opportunities_list [OF opps, of M] by simp
qed

theorem filter_idempotent_witness:
  "\<exists>kept. filter_opportunities (JList [python_aws_opp, java_opp]) [''python''] = Inr kept
     \<and> filter_opportunities kept [''python''] = Inr kept"
proof -
  have "list_all is_opportunity [python_aws_opp, java_opp]"
    by (simp add: sample_opportunities)
  from filter_idempotent [OF this] show ?thesis .
qed

text \<open>
  C10. More keywords never keep more: what is kept for \<open>M1 @ M2\<close> is a subsequence
  of what is kept for \<open>M1\<close>.
\<close>

theorem filter_antitone:
  assumes opps: "list_all is_opportunity opps"
  shows "\<exists>kept12 kept1.
           filter_opportunities (JList opps) (M1 @ M2) = Inr (JList kept12)
         \<and> filter_opportunities (JList opps) M1 = Inr (JList kept1)
         \<and> subseq kept12 kept1"
proof -
  have "filter (spec_retained (M1 @ M2)) opps
      = filter (spec_retained M2) (filter (spec_retained M1) opps)"
    by (induction opps) (simp_all add: spec_retained_append)
  then have "subseq (filter (spec_retained (M1 @ M2)) opps) (filter (spec_retained M1) opps)"
    by (simp del: filter_filter)
  then show ?thesis
    using filter_opportunities_list [OF opps, of "M1 @ M2"]
      filter_opportunities_list [OF opps, of M1]
    by simp
qed

theorem filter_antitone_witness:
  "\<exists>kept12 kept1.
     filter_opportunities (JList [python_aws_opp, java_opp]) ([''python''] @ [''aws''])
       = Inr (JList kept12)
   \<and> filter_opportunities (JList [python_aws_opp, java_opp]) [''python''] = Inr (JList kept1)
   \<and> subseq kept12 kept1"
proof -
  have "list_all is_opportunity [python_aws_opp, java_opp]"
    by (simp add: sample_opportunities)
  from filter_antitone [OF this] show ?thesis .
qed

section \<open>Missing and null fields\<close>







section \<open>The search\<close>












section \<open>The keyword string\<close>

lemma keyword_query_spec: "keyword_query K = spec_keyword_query K"
proof (cases K)
  case Nil
  then show ?thesis
    by (simp add: keyword_query_def spec_keyword_query_def)
next
  case (Cons k ks)
  have "foldl (\<lambda>acc k'. acc @ '' OR '' @ [CHR 0x22] @ k' @ [CHR 0x22]) a ks
      = a @ concat (map (\<lambda>k'. '' OR '' @ [CHR 0x22] @ k' @ [CHR 0x22]) ks)" for a
    by (rule foldl_append_each)
  then show ?thesis
    by (simp add: Cons keyword_query_def spec_keyword_query_def py_join_Cons comp_def)
qed

lemma search_depends_on_one_request:
  assumes "date_window ev days_back = Some (pf, pt)"
      and "date_window ev2 days_back = Some (pf, pt)"
      and "requests_get ev2 (base_url self) (headers self)
             (build_params self limit pf pt (keyword_query keywords))
           = requests_get ev (base_url self) (headers self)
               (build_params self limit pf pt (keyword_query keywords))"
  shows "search_opportunities ev2 self w keywords days_back limit
       = search_opportunities ev self w keywords days_back limit"
  using assms by (simp add: search_opportunities_def try_body_def)

text \<open>
  C6. The keyword string of line 47 is the keywords, each in double quotes, joined
  by \<^verbatim>\<open> OR \<close>; for no keyword it is empty, and for \<^verbatim>\<open>["a","b"]\<close> it is \<^verbatim>\<open>"a" OR "b"\<close>.
  It is what the call sends under \<^verbatim>\<open>keywords\<close>: the result of a search depends on the
  transport only through the answer to the request that carries this string.
\<close>

theorem keyword_query_joins_quoted:
  "keyword_query K = spec_keyword_query K
   \<and> keyword_query [] = []
   \<and> keyword_query [''a'', ''b'']
       = [CHR 0x22, CHR ''a'', CHR 0x22] @ '' OR '' @ [CHR 0x22, CHR ''b'', CHR 0x22]
   \<and> map_of (build_params self limit pf pt (keyword_query K)) ''keywords''
       = Some (JStr (spec_keyword_query K))
   \<and> (date_window ev days_back = Some (pf, pt)
      \<and> date_window ev2 days_back = Some (pf, pt)
      \<and> requests_get ev2 (base_url self) (headers self)
            (build_params self limit pf pt (spec_keyword_query K))
          = requests_get ev (base_url self) (headers self)
              (build_params self limit pf pt (spec_keyword_query K))
      \<longrightarrow> search_opportunities ev2 self w K days_back limit
          = search_opportunities ev self w K days_back limit)"
proof -
  have "keyword_query [''a'', ''b'']
       = [CHR 0x22, CHR ''a'', CHR 0x22] @ '' OR '' @ [CHR 0x22, CHR ''b'', CHR 0x22]"
    by (simp add: keyword_query_def)
  moreover have "keyword_query [] = []"
    by (simp add: keyword_query_def)
  moreover have "map_of (build_params self limit pf pt (keyword_query K)) ''keywords''
       = Some (JStr (spec_keyword_query K))"
    by (simp add: build_params_def keyword_query_spec)
  ultimately show ?thesis
    using keyword_query_spec [of K] search_depends_on_one_request [of ev days_back pf pt ev2 self limit K w]
    by simp
qed

theorem keyword_query_joins_quoted_witness:
  "keyword_query [''software'', ''development'', ''cloud'']
     = [CHR 0x22] @ ''software'' @ [CHR 0x22] @ '' OR '' @ [CHR 0x22] @ ''development''
       @ [CHR 0x22] @ '' OR '' @ [CHR 0x22] @ ''cloud'' @ [CHR 0x22]
   \<and> search_opportunities
       (sample_env (Inr (sample_response 200 (Inr (JList [])))) (Some KeyError))
       sample_self sample_world [''software'', ''development'', ''cloud''] 30 100
     = search_opportunities
       (sample_env (Inr (sample_response 200 (Inr (JList [])))) None)
       sample_self sample_world [''software'', ''development'', ''cloud''] 30 100"
proof -
  let ?out = "Inr (sample_response 200 (Inr (JList [])))"
  have a: "date_window (sample_env ?out disk) 30 = Some (''10/05/2026'', ''11/04/2026'')"
    for disk
    by (simp add: sample_env_def)
  have b: "requests_get (sample_env ?out (Some KeyError)) u h p
         = requests_get (sample_env ?out None) u h p" for u h p
    by (simp add: sample_env_def)
  from keyword_query_joins_quoted
    [of "[''software'', ''development'', ''cloud'']" sample_self 100
       "''10/05/2026''" "''11/04/2026''" "sample_env ?out None" 30
       "sample_env ?out (Some KeyError)" sample_world]
  show ?thesis
    using a b by (simp add: spec_keyword_query_def)
qed

section \<open>Saving\<close>

text \<open>
  C8. When the write fails, \<open>save_opportunities\<close> ends with that very exception,
  having printed nothing and recorded no file; and \<open>main\<close>, whose first save it is,
  ends with it too: the run stops there, where a failed search would have gone on
  with the empty list.
\<close>

theorem save_failure_propagates:
  assumes fails: "write_json ev (filename @ ''_'' @ timestamp @ ''.json'') opportunities = Some e"
  shows "save_opportunities ev w timestamp opportunities filename = (w, Inl e)
       \<and> (filename = ''all_opportunities''
          \<and> search_opportunities ev (init_scraper key)
               (py_print w0 ''Searching for opportunities...'')
               [''software'', ''development'', ''cloud''] 30 100 = (w1, Inr opportunities)
          \<longrightarrow> main ev key timestamp t2 w0 = (w1, Inl e))"
proof -
  have save: "save_opportunities ev w timestamp opportunities filename = (w, Inl e)" for w
    using fails by (simp add: save_opportunities_def Let_def)
  show ?thesis
    using save by (auto simp: main_def Let_def)
qed

theorem save_failure_propagates_witness:
  "save_opportunities (sample_env (Inr (sample_response 200 (Inr (JList [])))) (Some (OSError ''disk full'')))
     sample_world ''20261104_010203'' (JList [java_opp]) ''all_opportunities''
   = (sample_world, Inl (OSError ''disk full''))"
proof -
  have "write_json (sample_env (Inr (sample_response 200 (Inr (JList [])))) (Some (OSError ''disk full'')))
      (''all_opportunities'' @ ''_'' @ ''20261104_010203'' @ ''.json'') (JList [java_opp])
    = Some (OSError ''disk full'')"
    by (simp add: sample_env_def)
  from save_failure_propagates [OF this, of sample_world] show ?thesis
    by simp
qed

end
